theory Spec2Isabelle
  imports Main "HOL-Library.Sublist"
begin

section \<open>Go values shared by the clients and the controllers\<close>

text \<open>
  A Go \<^verbatim>\<open>*string\<close> is a \<open>string option\<close> (\<open>None\<close> is the nil pointer), a
  \<^verbatim>\<open>map[string]string\<close> is a map \<open>string \<rightharpoonup> string\<close> (the nil map is the empty map:
  reading it is allowed in Go). The index expression \<^verbatim>\<open>m[k]\<close> of Go gives the zero value,
  the empty string, at a key the map does not hold.
\<close>

type_synonym attributes = "string \<rightharpoonup> string"

definition mapIndex :: "attributes \<Rightarrow> string \<Rightarrow> string" where
  "mapIndex m k = (case m k of None \<Rightarrow> [] | Some v \<Rightarrow> v)"

text \<open>\<^verbatim>\<open>aws.StringValue\<close>, \<^verbatim>\<open>aws.String\<close> and \<^verbatim>\<open>aws.Bool\<close> of the AWS SDK.\<close>

definition StringValue :: "string option \<Rightarrow> string" where
  "StringValue p = (case p of None \<Rightarrow> [] | Some v \<Rightarrow> v)"

definition aws_String :: "string \<Rightarrow> string option" where
  "aws_String v = Some v"

definition aws_Bool :: "bool \<Rightarrow> bool option" where
  "aws_Bool v = Some v"

text \<open>
  \<^verbatim>\<open>strconv.ParseBool\<close> of the Go standard library accepts exactly twelve spellings;
  on any other string it returns an error, which is \<open>None\<close> here (the callers only test
  \<^verbatim>\<open>err == nil\<close>).
\<close>

definition ParseBool :: "string \<Rightarrow> bool option" where
  "ParseBool s =
     (if s = ''1'' \<or> s = ''t'' \<or> s = ''T'' \<or> s = ''TRUE'' \<or> s = ''true'' \<or> s = ''True''
        then Some True
      else if s = ''0'' \<or> s = ''f'' \<or> s = ''F'' \<or> s = ''FALSE'' \<or> s = ''false'' \<or> s = ''False''
        then Some False
      else None)"

section \<open>The SNS subscription client (pkg/clients/sns/snssubscription.go)\<close>

subsection \<open>Attribute names\<close>

definition SubscriptionDeliveryPolicy :: string where
  "SubscriptionDeliveryPolicy = ''DeliveryPolicy''"

definition SubscriptionFilterPolicy :: string where
  "SubscriptionFilterPolicy = ''FilterPolicy''"

definition SubscriptionRawMessageDelivery :: string where
  "SubscriptionRawMessageDelivery = ''RawMessageDelivery''"

definition SubscriptionRedrivePolicy :: string where
  "SubscriptionRedrivePolicy = ''RedrivePolicy''"

definition SubscriptionOwner :: string where
  "SubscriptionOwner = ''Owner''"

definition SubscriptionPendingConfirmation :: string where
  "SubscriptionPendingConfirmation = ''PendingConfirmation''"

definition SubscriptionConfirmationWasAuthenticated :: string where
  "SubscriptionConfirmationWasAuthenticated = ''ConfirmationWasAuthenticated''"

subsection \<open>The custom resource's types\<close>

text \<open>
  The declarations of \<^verbatim>\<open>v1alpha1.SNSSubscriptionParameters\<close> and
  \<^verbatim>\<open>v1alpha1.SNSSubscriptionObservation\<close> are not among the sources; the records hold the
  fields the client reads and writes, with the types it uses them at. The record is
  extensible, so a statement about \<open>'a SNSSubscriptionParameters_scheme\<close> covers every
  further field of the Go struct (they live in \<open>more\<close>).
\<close>

record SNSSubscriptionParameters =
  TopicARN :: string
  Protocol :: string
  Endpoint :: string
  DeliveryPolicy :: "string option"
  FilterPolicy :: "string option"
  RawMessageDelivery :: "string option"
  RedrivePolicy :: "string option"

text \<open>
  \<^verbatim>\<open>v1alpha1.ConfirmationStatus\<close> is a string type with two named constants; the zero
  value of the Go variable \<^verbatim>\<open>var status v1alpha1.ConfirmationStatus\<close> is the empty
  string, \<open>ConfirmationStatusZero\<close> here.
\<close>

datatype ConfirmationStatus =
  ConfirmationStatusZero | ConfirmationPending | ConfirmationSuccessful

record SNSSubscriptionObservation =
  Owner :: "string option"
  Status :: "ConfirmationStatus option"
  ConfirmationWasAuthenticated :: "bool option"

subsection \<open>GenerateSubscriptionObservation\<close>

definition GenerateSubscriptionObservation :: "attributes \<Rightarrow> SNSSubscriptionObservation" where
  "GenerateSubscriptionObservation attr =
     (let status =
            (case ParseBool (mapIndex attr SubscriptionPendingConfirmation) of
               Some s \<Rightarrow> if s then ConfirmationPending else ConfirmationSuccessful
             | None \<Rightarrow> ConfirmationStatusZero)
      in \<lparr> Owner = aws_String (mapIndex attr SubscriptionOwner),
           Status = Some status,
           ConfirmationWasAuthenticated =
             (case ParseBool (mapIndex attr SubscriptionConfirmationWasAuthenticated) of
                Some s \<Rightarrow> aws_Bool s
              | None \<Rightarrow> None) \<rparr>)"

subsection \<open>LateInitializeSubscription\<close>

text \<open>
  Modelled from the spec: \<^verbatim>\<open>awsclients.LateInitializeStringPtr\<close> (package pkg/clients) is
  not among the sources. The spec's glossary defines late initialization as
  ``populating spec fields from observed cloud defaults when the user left them unset'':
  a field the user set is kept, an unset (nil) field takes the observed value.
\<close>

definition LateInitializeStringPtr :: "string option \<Rightarrow> string option \<Rightarrow> string option" where
  "LateInitializeStringPtr in_ptr from = (case in_ptr of Some v \<Rightarrow> Some v | None \<Rightarrow> from)"

text \<open>
  \<^verbatim>\<open>awsclients.String\<close>, which turns the observed attribute into a pointer, is not among
  the sources either and the spec does not describe it: it is the parameter \<open>String\<close>.
  The Go function mutates \<^verbatim>\<open>*in\<close>; the model returns the updated parameters.
\<close>

definition LateInitializeSubscription ::
  "(string \<Rightarrow> string option) \<Rightarrow> 'a SNSSubscriptionParameters_scheme \<Rightarrow> attributes
     \<Rightarrow> 'a SNSSubscriptionParameters_scheme" where
  "LateInitializeSubscription String p subAttributes =
     (let p1 = p\<lparr>DeliveryPolicy := LateInitializeStringPtr (DeliveryPolicy p)
                   (String (mapIndex subAttributes SubscriptionDeliveryPolicy))\<rparr>;
          p2 = p1\<lparr>FilterPolicy := LateInitializeStringPtr (FilterPolicy p1)
                   (String (mapIndex subAttributes SubscriptionFilterPolicy))\<rparr>;
          p3 = p2\<lparr>RawMessageDelivery := LateInitializeStringPtr (RawMessageDelivery p2)
                   (String (mapIndex subAttributes SubscriptionRawMessageDelivery))\<rparr>;
          p4 = p3\<lparr>RedrivePolicy := LateInitializeStringPtr (RedrivePolicy p3)
                   (String (mapIndex subAttributes SubscriptionRedrivePolicy))\<rparr>
      in p4)"

subsection \<open>getSubAttributes, GetChangedSubAttributes, IsSNSSubscriptionAttributesUpToDate\<close>

text \<open>
  The map literal of \<^verbatim>\<open>getSubAttributes\<close> is the list of its four entries, in the order
  of the source. \<^verbatim>\<open>GetChangedSubAttributes\<close> ranges over that map; Go does not fix the
  order of the iteration, so the loop is a function of the list of entries it visits, and
  \<open>GetChangedSubAttributes_order\<close> below shows that the order does not matter.
\<close>

definition getSubAttributes :: "'a SNSSubscriptionParameters_scheme \<Rightarrow> (string \<times> string) list" where
  "getSubAttributes p =
     [(SubscriptionDeliveryPolicy, StringValue (DeliveryPolicy p)),
      (SubscriptionFilterPolicy, StringValue (FilterPolicy p)),
      (SubscriptionRawMessageDelivery, StringValue (RawMessageDelivery p)),
      (SubscriptionRedrivePolicy, StringValue (RedrivePolicy p))]"

fun changedAttrs_loop :: "(string \<times> string) list \<Rightarrow> attributes \<Rightarrow> attributes \<Rightarrow> attributes" where
  "changedAttrs_loop [] attrs changedAttrs = changedAttrs"
| "changedAttrs_loop ((k, v) # kvs) attrs changedAttrs =
     changedAttrs_loop kvs attrs
       (if v \<noteq> mapIndex attrs k then changedAttrs(k \<mapsto> v) else changedAttrs)"

definition GetChangedSubAttributes :: "'a SNSSubscriptionParameters_scheme \<Rightarrow> attributes \<Rightarrow> attributes" where
  "GetChangedSubAttributes p attrs = changedAttrs_loop (getSubAttributes p) attrs Map.empty"

definition IsSNSSubscriptionAttributesUpToDate ::
  "'a SNSSubscriptionParameters_scheme \<Rightarrow> attributes \<Rightarrow> bool" where
  "IsSNSSubscriptionAttributesUpToDate p subAttributes =
     (StringValue (DeliveryPolicy p) = mapIndex subAttributes SubscriptionDeliveryPolicy \<and>
      StringValue (FilterPolicy p) = mapIndex subAttributes SubscriptionFilterPolicy \<and>
      StringValue (RawMessageDelivery p) = mapIndex subAttributes SubscriptionRawMessageDelivery \<and>
      StringValue (RedrivePolicy p) = mapIndex subAttributes SubscriptionRedrivePolicy)"

subsection \<open>IsSubscriptionNotFound\<close>

text \<open>
  A Go \<^verbatim>\<open>error\<close> value is \<open>error option\<close>, \<open>None\<close> being nil. The errors the sources
  build and inspect are of three dynamic types: a plain error made by \<^verbatim>\<open>errors.New\<close>
  (\<^verbatim>\<open>errBoom\<close> of the tests), an AWS SDK error, which implements \<^verbatim>\<open>awserr.Error\<close> and so
  has a code and a message (the original error an SDK error may carry is read by none of
  the functions and left out), and an error wrapped with a message by \<^verbatim>\<open>errors.Wrap\<close>,
  which does not implement \<^verbatim>\<open>awserr.Error\<close>. The interfaces \<^verbatim>\<open>awserr.Error\<close> of the
  two SDK versions the sources import have the same methods, so one constructor serves
  both.
\<close>

datatype error =
    errors_New string
  | awserr_New string string
  | errors_Wrap error string

text \<open>\<^verbatim>\<open>errors.Wrap\<close> of github.com/pkg/errors returns nil on a nil error.\<close>

definition Wrap :: "error option \<Rightarrow> string \<Rightarrow> error option" where
  "Wrap err message = (case err of None \<Rightarrow> None | Some e \<Rightarrow> Some (errors_Wrap e message))"

text \<open>
  The type assertion \<^verbatim>\<open>err.(awserr.Error)\<close> in its comma-ok form: the code and the
  message when the dynamic type implements the interface, \<open>None\<close> when it does not or
  the error is nil.
\<close>

definition assert_awserr :: "error option \<Rightarrow> (string \<times> string) option" where
  "assert_awserr err =
     (case err of
        Some (awserr_New code message) \<Rightarrow> Some (code, message)
      | _ \<Rightarrow> None)"

text \<open>The constant \<^verbatim>\<open>sns.ErrCodeNotFoundException\<close> of the AWS SDK.\<close>

definition ErrCodeNotFoundException :: string where
  "ErrCodeNotFoundException = ''NotFound''"

definition IsSubscriptionNotFound :: "error option \<Rightarrow> bool" where
  "IsSubscriptionNotFound err =
     (case assert_awserr err of
        Some (code, message) \<Rightarrow> if code = ErrCodeNotFoundException then True else False
      | None \<Rightarrow> False)"

section \<open>Managed resources\<close>

text \<open>
  Every custom resource has the same shape: the object's annotations, the desired
  configuration \<^verbatim>\<open>Spec.ForProvider\<close>, the observed state \<^verbatim>\<open>Status.AtProvider\<close> and the
  conditions of \<^verbatim>\<open>Status.ConditionedStatus\<close>. The types are declared outside the
  sources; the record has the parts the sources use and is extensible for the rest.
  The conditions are the four the controllers set, the values of
  \<^verbatim>\<open>Available()\<close>, \<^verbatim>\<open>Creating()\<close>, \<^verbatim>\<open>Deleting()\<close> and \<^verbatim>\<open>Unavailable()\<close> of crossplane-runtime.
\<close>

datatype Condition = Available | Creating | Deleting | Unavailable

record ('p, 'o) Managed =
  Annotations :: attributes
  ForProvider :: 'p
  AtProvider :: 'o
  Conditions :: "Condition list"

text \<open>
  \<^verbatim>\<open>managed.ExternalObservation\<close> of crossplane-runtime, with the two fields the tests
  set; \<^verbatim>\<open>managed.ExternalObservation{}\<close> is its zero value.
\<close>

record ExternalObservation =
  ResourceExists :: bool
  ResourceUpToDate :: bool

definition ExternalObservation_zero :: ExternalObservation where
  "ExternalObservation_zero = \<lparr>ResourceExists = False, ResourceUpToDate = False\<rparr>"

text \<open>Reading a field through a nil pointer panics.\<close>

datatype panic = NilPointerDereference

section \<open>The APIMapping conversions (pkg/controller/apigatewayv2/apimapping/zz_conversions.go)\<close>

text \<open>
  \<^verbatim>\<open>svcsdk.ApiMapping\<close> and \<^verbatim>\<open>svcsdk.GetApiMappingsOutput\<close> of the AWS SDK; the items are
  pointers, \<open>None\<close> is a nil item.
\<close>

record ApiMapping =
  ApiId :: "string option"
  ApiMappingId :: "string option"
  ApiMappingKey :: "string option"
  Stage :: "string option"

record GetApiMappingsOutput =
  Items :: "ApiMapping option list"
  NextToken :: "string option"

record APIMappingParameters =
  APIMappingKey :: "string option"

record APIMappingObservation =
  APIID :: "string option"
  APIMappingID :: "string option"
  Stage :: "string option"

type_synonym APIMapping = "(APIMappingParameters, APIMappingObservation) Managed"

text \<open>The value of \<^verbatim>\<open>&svcapitypes.APIMapping{}\<close>: every field nil or empty.\<close>

definition APIMapping_zero :: APIMapping where
  "APIMapping_zero =
     \<lparr>Annotations = Map.empty,
      ForProvider = \<lparr>APIMappingKey = None\<rparr>,
      AtProvider = \<lparr>APIID = None, APIMappingID = None, APIMappingObservation.Stage = None\<rparr>,
      Conditions = []\<rparr>"

text \<open>
  The loop of \<^verbatim>\<open>GenerateAPIMapping\<close> breaks at the end of its first iteration, so no
  equation recurses; it returns the resource and the flag \<^verbatim>\<open>found\<close>.
\<close>

fun GenerateAPIMapping_loop ::
  "ApiMapping option list \<Rightarrow> APIMapping \<Rightarrow> panic + (APIMapping \<times> bool)" where
  "GenerateAPIMapping_loop [] cr = Inr (cr, False)"
| "GenerateAPIMapping_loop (None # rest) cr = Inl NilPointerDereference"
| "GenerateAPIMapping_loop (Some elem # rest) cr =
     (let cr1 = (if ApiId elem \<noteq> None
                 then cr\<lparr>AtProvider := (AtProvider cr)\<lparr>APIID := ApiId elem\<rparr>\<rparr> else cr);
          cr2 = (if ApiMappingId elem \<noteq> None
                 then cr1\<lparr>AtProvider := (AtProvider cr1)\<lparr>APIMappingID := ApiMappingId elem\<rparr>\<rparr>
                 else cr1);
          cr3 = (if ApiMappingKey elem \<noteq> None
                 then cr2\<lparr>ForProvider := (ForProvider cr2)\<lparr>APIMappingKey := ApiMappingKey elem\<rparr>\<rparr>
                 else cr2);
          cr4 = (if ApiMapping.Stage elem \<noteq> None
                 then cr3\<lparr>AtProvider :=
                        (AtProvider cr3)\<lparr>APIMappingObservation.Stage := ApiMapping.Stage elem\<rparr>\<rparr>
                 else cr3)
      in Inr (cr4, True))"

definition GenerateAPIMapping :: "GetApiMappingsOutput \<Rightarrow> panic + APIMapping" where
  "GenerateAPIMapping resp =
     (case GenerateAPIMapping_loop (GetApiMappingsOutput.Items resp) APIMapping_zero of
        Inl p \<Rightarrow> Inl p
      | Inr (cr, found) \<Rightarrow> if \<not> found then Inr cr else Inr cr)"

definition IsNotFound :: "error option \<Rightarrow> bool" where
  "IsNotFound err =
     (case assert_awserr err of
        Some (code, message) \<Rightarrow> code = ''NotFoundException''
      | None \<Rightarrow> False)"

section \<open>The Authorizer controller's hooks\<close>

text \<open>
  \<^verbatim>\<open>svcsdk.Authorizer\<close> and \<^verbatim>\<open>svcsdk.GetAuthorizersOutput\<close> of the AWS SDK. The hooks read
  the name of an authorizer only; its other fields live in \<open>more\<close>.
\<close>

record Authorizer =
  AuthorizerId :: "string option"
  Name :: "string option"

record GetAuthorizersOutput =
  Items :: "Authorizer option list"
  NextToken :: "string option"

text \<open>
  \<^verbatim>\<open>cr.SetConditions\<close> and \<^verbatim>\<open>meta.GetExternalName\<close> belong to crossplane-runtime, not to
  this repository: the hooks take them as the parameters \<open>SetConditions\<close> (the new
  conditions and the conditions of the resource, giving its conditions after the call)
  and \<open>GetExternalName\<close>. The hooks read neither the spec nor the observation of the
  custom resource, whose types are left open. \<^verbatim>\<open>postObserve\<close> mutates \<^verbatim>\<open>*cr\<close>: the model
  returns the resource with the observation and the error.
\<close>

definition postObserve ::
  "(Condition list \<Rightarrow> Condition list \<Rightarrow> Condition list)
     \<Rightarrow> ('p, 'o, 'z) Managed_scheme \<Rightarrow> GetAuthorizersOutput \<Rightarrow> ExternalObservation
     \<Rightarrow> error option
     \<Rightarrow> ('p, 'o, 'z) Managed_scheme \<times> ExternalObservation \<times> error option" where
  "postObserve SetConditions cr resp obs err =
     (if err \<noteq> None then (cr, ExternalObservation_zero, err)
      else (cr\<lparr>Conditions := SetConditions [Available] (Conditions cr)\<rparr>, obs, None))"

text \<open>
  \<^verbatim>\<open>filterList\<close> appends to the items of a fresh output, which start as the nil slice. It
  assigns to neither \<^verbatim>\<open>*list\<close> nor \<^verbatim>\<open>*cr\<close>; the model returns the list as the call leaves
  it beside the output.
\<close>

fun filterList_loop ::
  "(('p, 'o, 'z) Managed_scheme \<Rightarrow> string) \<Rightarrow> ('p, 'o, 'z) Managed_scheme
     \<Rightarrow> Authorizer option list \<Rightarrow> Authorizer option list
     \<Rightarrow> panic + Authorizer option list" where
  "filterList_loop GetExternalName cr [] res = Inr res"
| "filterList_loop GetExternalName cr (None # rest) res = Inl NilPointerDereference"
| "filterList_loop GetExternalName cr (Some authorizer # rest) res =
     filterList_loop GetExternalName cr rest
       (if GetExternalName cr = StringValue (Name authorizer)
        then res @ [Some authorizer] else res)"

definition filterList ::
  "(('p, 'o, 'z) Managed_scheme \<Rightarrow> string) \<Rightarrow> ('p, 'o, 'z) Managed_scheme
     \<Rightarrow> GetAuthorizersOutput \<Rightarrow> panic + (GetAuthorizersOutput \<times> GetAuthorizersOutput)" where
  "filterList GetExternalName cr list =
     (case filterList_loop GetExternalName cr (GetAuthorizersOutput.Items list) [] of
        Inl p \<Rightarrow> Inl p
      | Inr items \<Rightarrow>
          Inr (list, \<lparr>GetAuthorizersOutput.Items = items, NextToken = None\<rparr>))"

section \<open>The NodeGroup controller (pkg/controller/eks/nodegroup)\<close>

text \<open>
  Of this controller the sources hold the tests only (controller_test.go); the operations
  are modelled from the spec's section on error handling and from the tables of
  \<^verbatim>\<open>TestObserve\<close>, \<^verbatim>\<open>TestCreate\<close> and \<^verbatim>\<open>TestDelete\<close>.

  The tests' fake client answers each request with a canned response: the outcome of a
  call is \<open>Inl\<close> the error or \<open>Inr\<close> the data. The observed status of a node group is a
  string type; the datatype has the values the tests use and the zero value.
\<close>

datatype NodeGroupStatusType =
    NodeGroupStatusZero
  | NodeGroupStatusCreating
  | NodeGroupStatusActive
  | NodeGroupStatusDeleting
  | NodeGroupStatusDegraded

record NodeGroupObservation =
  Status :: NodeGroupStatusType

text \<open>The constant \<^verbatim>\<open>awseks.ErrCodeResourceNotFoundException\<close> of the AWS SDK.\<close>

definition ErrCodeResourceNotFoundException :: string where
  "ErrCodeResourceNotFoundException = ''ResourceNotFoundException''"

text \<open>The method \<^verbatim>\<open>Error()\<close>: the text of an error.\<close>

fun Error :: "error \<Rightarrow> string" where
  "Error (errors_New text) = text"
| "Error (awserr_New code message) = code @ '': '' @ message"
| "Error (errors_Wrap cause message) = message @ '': '' @ Error cause"

text \<open>
  Modelled from the spec: \<^verbatim>\<open>eks.IsErrorNotFound\<close> (package pkg/clients/eks) is not among
  the sources. The spec says that ``absence of the cloud object is signaled by a recognized
  NotFound error code from the AWS SDK''; the cases NotFound of \<^verbatim>\<open>TestObserve\<close> and
  AlreadyDeleted of \<^verbatim>\<open>TestDelete\<close> signal it with the plain error
  \<^verbatim>\<open>errors.New(awseks.ErrCodeResourceNotFoundException)\<close>, which has no code but its text.
  An error is recognized when its text holds the code.
\<close>

definition IsErrorNotFound :: "error \<Rightarrow> bool" where
  "IsErrorNotFound err = sublist ErrCodeResourceNotFoundException (Error err)"

text \<open>
  Modelled from the spec: the constant \<^verbatim>\<open>errDescribeFailed\<close> of controller.go, which is
  not among the sources. The spec quotes its text. The texts of \<^verbatim>\<open>errCreateFailed\<close> and
  \<^verbatim>\<open>errDeleteFailed\<close> are quoted nowhere: \<open>Create\<close> and \<open>Delete\<close> take them as parameters.
\<close>

definition errDescribeFailed :: string where
  "errDescribeFailed = ''failed to describe node group''"

text \<open>
  Modelled from the spec: \<^verbatim>\<open>Observe\<close> of controller.go, which is not among the sources.
  ``Each operation wraps the first failing call with a static, named error string'', and
  resource-not-found is ``special-cased to mean already absent, converting what would be an
  error into a normal not-found observation''. \<^verbatim>\<open>TestObserve\<close> expects, for both failures of
  DescribeNodegroup, the zero observation and the resource as it was. What \<^verbatim>\<open>Observe\<close> does
  with a successful response (late initialization, the condition of the reported status)
  is the parameter \<open>observed\<close>.
\<close>

definition Observe ::
  "('rsp \<Rightarrow> ('p, NodeGroupObservation, 'z) Managed_scheme
       \<Rightarrow> ('p, NodeGroupObservation, 'z) Managed_scheme \<times> ExternalObservation \<times> error option)
     \<Rightarrow> error + 'rsp \<Rightarrow> ('p, NodeGroupObservation, 'z) Managed_scheme
     \<Rightarrow> ('p, NodeGroupObservation, 'z) Managed_scheme \<times> ExternalObservation \<times> error option" where
  "Observe observed DescribeNodegroup cr =
     (case DescribeNodegroup of
        Inl err \<Rightarrow>
          if IsErrorNotFound err then (cr, ExternalObservation_zero, None)
          else (cr, ExternalObservation_zero, Wrap (Some err) errDescribeFailed)
      | Inr rsp \<Rightarrow> observed rsp cr)"

text \<open>
  Modelled from the spec: \<^verbatim>\<open>Create\<close> of controller.go, which is not among the sources.
  \<^verbatim>\<open>TestCreate\<close> expects the Creating condition in every case, no call to AWS for a node
  group whose observed status is already Creating (the case has no client), and the
  error of CreateNodegroup wrapped with \<^verbatim>\<open>errCreateFailed\<close>.
\<close>

definition Create ::
  "(Condition list \<Rightarrow> Condition list \<Rightarrow> Condition list) \<Rightarrow> string
     \<Rightarrow> error + 'rsp \<Rightarrow> ('p, NodeGroupObservation, 'z) Managed_scheme
     \<Rightarrow> ('p, NodeGroupObservation, 'z) Managed_scheme \<times> error option" where
  "Create SetConditions errCreateFailed CreateNodegroup cr =
     (let cr' = cr\<lparr>Conditions := SetConditions [Creating] (Conditions cr)\<rparr>
      in if NodeGroupObservation.Status (AtProvider cr') = NodeGroupStatusCreating
         then (cr', None)
         else (case CreateNodegroup of
                 Inl err \<Rightarrow> (cr', Wrap (Some err) errCreateFailed)
               | Inr rsp \<Rightarrow> (cr', None)))"

text \<open>
  Modelled from the spec: \<^verbatim>\<open>Delete\<close> of controller.go, which is not among the sources.
  \<^verbatim>\<open>TestDelete\<close> expects the Deleting condition in every case, no call to AWS for a node
  group whose observed status is already Deleting (the case has no client), a nil error
  when DeleteNodegroup reports that the node group is not found, and any other error of
  DeleteNodegroup wrapped with \<^verbatim>\<open>errDeleteFailed\<close>.
\<close>

definition Delete ::
  "(Condition list \<Rightarrow> Condition list \<Rightarrow> Condition list) \<Rightarrow> string
     \<Rightarrow> error + 'rsp \<Rightarrow> ('p, NodeGroupObservation, 'z) Managed_scheme
     \<Rightarrow> ('p, NodeGroupObservation, 'z) Managed_scheme \<times> error option" where
  "Delete SetConditions errDeleteFailed DeleteNodegroup cr =
     (let cr' = cr\<lparr>Conditions := SetConditions [Deleting] (Conditions cr)\<rparr>
      in if NodeGroupObservation.Status (AtProvider cr') = NodeGroupStatusDeleting
         then (cr', None)
         else (case DeleteNodegroup of
                 Inl err \<Rightarrow>
                   if IsErrorNotFound err then (cr', None)
                   else (cr', Wrap (Some err) errDeleteFailed)
               | Inr rsp \<Rightarrow> (cr', None)))"

text \<open>
  The fixtures of controller_test.go: \<^verbatim>\<open>errBoom\<close>, and \<^verbatim>\<open>nodeGroup()\<close> without modifiers,
  a node group with no version, no tags, no observed status and no condition. Of the
  node group's parameters the record has the two that the modifiers \<^verbatim>\<open>withVersion\<close> and
  \<^verbatim>\<open>withTags\<close> set.
\<close>

record NodeGroupParameters =
  Version :: "string option"
  Tags :: attributes

definition errBoom :: error where
  "errBoom = errors_New ''boom''"

definition nodeGroup :: "(NodeGroupParameters, NodeGroupObservation) Managed" where
  "nodeGroup =
     \<lparr>Annotations = Map.empty,
      ForProvider = \<lparr>Version = None, Tags = Map.empty\<rparr>,
      AtProvider = \<lparr>NodeGroupObservation.Status = NodeGroupStatusZero\<rparr>,
      Conditions = []\<rparr>"

section \<open>Properties of the SNS subscription client\<close>

lemma changedAttrs_loop_lookup:
  "distinct (map fst kvs) \<Longrightarrow>
   changedAttrs_loop kvs attrs acc k =
     (case map_of kvs k of
        Some v \<Rightarrow> if v \<noteq> mapIndex attrs k then Some v else acc k
      | None \<Rightarrow> acc k)"
proof (induction kvs arbitrary: acc)
  case Nil
  show ?case by simp
next
  case (Cons kv kvs)
  obtain k' v' where kv: "kv = (k', v')" by (cases kv)
  from Cons.prems kv have d: "distinct (map fst kvs)" and notin: "k' \<notin> fst ` set kvs"
    by auto
  from notin have none: "map_of kvs k' = None"
    by (simp add: map_of_eq_None_iff)
  show ?case
    using Cons.IH [OF d] none kv by (auto split: option.splits)
qed

lemma getSubAttributes_distinct: "distinct (map fst (getSubAttributes p))"
  by (simp add: getSubAttributes_def SubscriptionDeliveryPolicy_def SubscriptionFilterPolicy_def
      SubscriptionRawMessageDelivery_def SubscriptionRedrivePolicy_def)

text \<open>
  Whatever order the range loop of \<^verbatim>\<open>GetChangedSubAttributes\<close> visits the four entries
  in, it builds the same map.
\<close>

lemma GetChangedSubAttributes_order:
  assumes "set kvs = set (getSubAttributes p)" and "distinct (map fst kvs)"
  shows "changedAttrs_loop kvs attrs Map.empty = GetChangedSubAttributes p attrs"
proof
  fix k
  have "map_of kvs = map_of (getSubAttributes p)"
    using assms getSubAttributes_distinct [of p] by (intro map_of_inject_set [THEN iffD2]) auto
  then show "changedAttrs_loop kvs attrs Map.empty k = GetChangedSubAttributes p attrs k"
    by (simp add: GetChangedSubAttributes_def changedAttrs_loop_lookup assms(2)
        getSubAttributes_distinct)
qed

lemma GetChangedSubAttributes_lookup:
  "GetChangedSubAttributes p attrs k =
     (case map_of (getSubAttributes p) k of
        Some v \<Rightarrow> if v \<noteq> mapIndex attrs k then Some v else None
      | None \<Rightarrow> None)"
  by (simp add: GetChangedSubAttributes_def changedAttrs_loop_lookup getSubAttributes_distinct)

lemma GetChangedSubAttributes_apply:
  "GetChangedSubAttributes p attrs k =
     (if k = SubscriptionDeliveryPolicy \<and>
         StringValue (DeliveryPolicy p) \<noteq> mapIndex attrs SubscriptionDeliveryPolicy
        then Some (StringValue (DeliveryPolicy p))
      else if k = SubscriptionFilterPolicy \<and>
         StringValue (FilterPolicy p) \<noteq> mapIndex attrs SubscriptionFilterPolicy
        then Some (StringValue (FilterPolicy p))
      else if k = SubscriptionRawMessageDelivery \<and>
         StringValue (RawMessageDelivery p) \<noteq> mapIndex attrs SubscriptionRawMessageDelivery
        then Some (StringValue (RawMessageDelivery p))
      else if k = SubscriptionRedrivePolicy \<and>
         StringValue (RedrivePolicy p) \<noteq> mapIndex attrs SubscriptionRedrivePolicy
        then Some (StringValue (RedrivePolicy p))
      else None)"
  unfolding GetChangedSubAttributes_lookup
  by (simp add: getSubAttributes_def SubscriptionDeliveryPolicy_def SubscriptionFilterPolicy_def
      SubscriptionRawMessageDelivery_def SubscriptionRedrivePolicy_def)

text \<open>
  Claim C1. For all parameters \<open>p\<close> and observed attributes \<open>attrs\<close>,
  \<^verbatim>\<open>IsSNSSubscriptionAttributesUpToDate(p, attrs)\<close> is true if and only if
  \<^verbatim>\<open>GetChangedSubAttributes(p, attrs)\<close> is the empty map: the up-to-date check and the
  diff agree on whether an update is needed.
\<close>

theorem uptodate_iff_no_changed_attributes:
  "IsSNSSubscriptionAttributesUpToDate p attrs \<longleftrightarrow> GetChangedSubAttributes p attrs = Map.empty"
proof
  assume "IsSNSSubscriptionAttributesUpToDate p attrs"
  then have "GetChangedSubAttributes p attrs k = None" for k
    by (simp add: GetChangedSubAttributes_apply IsSNSSubscriptionAttributesUpToDate_def)
  then show "GetChangedSubAttributes p attrs = Map.empty"
    by (intro ext)
next
  assume e: "GetChangedSubAttributes p attrs = Map.empty"
  have k: "SubscriptionDeliveryPolicy \<noteq> SubscriptionFilterPolicy"
    "SubscriptionDeliveryPolicy \<noteq> SubscriptionRawMessageDelivery"
    "SubscriptionDeliveryPolicy \<noteq> SubscriptionRedrivePolicy"
    "SubscriptionFilterPolicy \<noteq> SubscriptionRawMessageDelivery"
    "SubscriptionFilterPolicy \<noteq> SubscriptionRedrivePolicy"
    "SubscriptionRawMessageDelivery \<noteq> SubscriptionRedrivePolicy"
    by (simp_all add: SubscriptionDeliveryPolicy_def SubscriptionFilterPolicy_def
        SubscriptionRawMessageDelivery_def SubscriptionRedrivePolicy_def)
  have 1: "StringValue (DeliveryPolicy p) = mapIndex attrs SubscriptionDeliveryPolicy"
    using GetChangedSubAttributes_apply [of p attrs SubscriptionDeliveryPolicy] e
    by (simp split: if_splits)
  have 2: "StringValue (FilterPolicy p) = mapIndex attrs SubscriptionFilterPolicy"
    using GetChangedSubAttributes_apply [of p attrs SubscriptionFilterPolicy] e k
    by (simp split: if_splits)
  have 3: "StringValue (RawMessageDelivery p) = mapIndex attrs SubscriptionRawMessageDelivery"
    using GetChangedSubAttributes_apply [of p attrs SubscriptionRawMessageDelivery] e k
    by (simp split: if_splits)
  have 4: "StringValue (RedrivePolicy p) = mapIndex attrs SubscriptionRedrivePolicy"
    using GetChangedSubAttributes_apply [of p attrs SubscriptionRedrivePolicy] e k
    by (simp split: if_splits)
  from 1 2 3 4 show "IsSNSSubscriptionAttributesUpToDate p attrs"
    by (simp add: IsSNSSubscriptionAttributesUpToDate_def)
qed

text \<open>
  The two functions of C1 run on a subscription whose spec sets only a delivery policy,
  once against attributes that differ and once against attributes that agree.
\<close>

theorem uptodate_iff_no_changed_attributes_witness:
  "\<not> IsSNSSubscriptionAttributesUpToDate
       \<lparr>TopicARN = ''arn:topic'', Protocol = ''sqs'', Endpoint = ''arn:queue'',
        DeliveryPolicy = Some ''{}'', FilterPolicy = None, RawMessageDelivery = None,
        RedrivePolicy = None\<rparr>
       [''RawMessageDelivery'' \<mapsto> ''true'']
   \<and> GetChangedSubAttributes
       \<lparr>TopicARN = ''arn:topic'', Protocol = ''sqs'', Endpoint = ''arn:queue'',
        DeliveryPolicy = Some ''{}'', FilterPolicy = None, RawMessageDelivery = None,
        RedrivePolicy = None\<rparr>
       [''RawMessageDelivery'' \<mapsto> ''true''] \<noteq> Map.empty
   \<and> GetChangedSubAttributes
       \<lparr>TopicARN = ''arn:topic'', Protocol = ''sqs'', Endpoint = ''arn:queue'',
        DeliveryPolicy = Some ''{}'', FilterPolicy = None, RawMessageDelivery = None,
        RedrivePolicy = None\<rparr>
       [''DeliveryPolicy'' \<mapsto> ''{}''] = Map.empty"
proof -
  let ?p = "\<lparr>TopicARN = ''arn:topic'', Protocol = ''sqs'', Endpoint = ''arn:queue'',
        DeliveryPolicy = Some ''{}'', FilterPolicy = None, RawMessageDelivery = None,
        RedrivePolicy = None\<rparr>"
  have a: "\<not> IsSNSSubscriptionAttributesUpToDate ?p [''RawMessageDelivery'' \<mapsto> ''true'']"
    by (simp add: IsSNSSubscriptionAttributesUpToDate_def StringValue_def mapIndex_def
        SubscriptionDeliveryPolicy_def)
  have b: "IsSNSSubscriptionAttributesUpToDate ?p [''DeliveryPolicy'' \<mapsto> ''{}'']"
    by (simp add: IsSNSSubscriptionAttributesUpToDate_def StringValue_def mapIndex_def
        SubscriptionDeliveryPolicy_def SubscriptionFilterPolicy_def
        SubscriptionRawMessageDelivery_def SubscriptionRedrivePolicy_def)
  from a b show ?thesis
    using uptodate_iff_no_changed_attributes [of ?p "[''RawMessageDelivery'' \<mapsto> ''true'']"]
      uptodate_iff_no_changed_attributes [of ?p "[''DeliveryPolicy'' \<mapsto> ''{}'']"]
    by simp
qed

text \<open>
  Claim C3. For all parameters \<open>p\<close> and observed attributes \<open>attrs\<close>, the keys of
  \<^verbatim>\<open>GetChangedSubAttributes(p, attrs)\<close> are exactly those of the four subscription
  attributes DeliveryPolicy, FilterPolicy, RawMessageDelivery and RedrivePolicy whose
  desired value (the empty string when the spec field is nil) differs from \<^verbatim>\<open>attrs\<close> at
  that key; each such key maps to the desired value, and no other key appears.
\<close>

theorem changed_attributes_exact:
  "dom (GetChangedSubAttributes p attrs) =
     {k. k = SubscriptionDeliveryPolicy \<and>
           StringValue (DeliveryPolicy p) \<noteq> mapIndex attrs SubscriptionDeliveryPolicy}
     \<union> {k. k = SubscriptionFilterPolicy \<and>
           StringValue (FilterPolicy p) \<noteq> mapIndex attrs SubscriptionFilterPolicy}
     \<union> {k. k = SubscriptionRawMessageDelivery \<and>
           StringValue (RawMessageDelivery p) \<noteq> mapIndex attrs SubscriptionRawMessageDelivery}
     \<union> {k. k = SubscriptionRedrivePolicy \<and>
           StringValue (RedrivePolicy p) \<noteq> mapIndex attrs SubscriptionRedrivePolicy}
   \<and> (GetChangedSubAttributes p attrs SubscriptionDeliveryPolicy = Some v1
         \<longrightarrow> v1 = StringValue (DeliveryPolicy p))
   \<and> (GetChangedSubAttributes p attrs SubscriptionFilterPolicy = Some v2
         \<longrightarrow> v2 = StringValue (FilterPolicy p))
   \<and> (GetChangedSubAttributes p attrs SubscriptionRawMessageDelivery = Some v3
         \<longrightarrow> v3 = StringValue (RawMessageDelivery p))
   \<and> (GetChangedSubAttributes p attrs SubscriptionRedrivePolicy = Some v4
         \<longrightarrow> v4 = StringValue (RedrivePolicy p))
   \<and> dom (GetChangedSubAttributes p attrs) \<subseteq>
       {SubscriptionDeliveryPolicy, SubscriptionFilterPolicy,
        SubscriptionRawMessageDelivery, SubscriptionRedrivePolicy}"
proof -
  have k: "SubscriptionDeliveryPolicy \<noteq> SubscriptionFilterPolicy"
    "SubscriptionDeliveryPolicy \<noteq> SubscriptionRawMessageDelivery"
    "SubscriptionDeliveryPolicy \<noteq> SubscriptionRedrivePolicy"
    "SubscriptionFilterPolicy \<noteq> SubscriptionRawMessageDelivery"
    "SubscriptionFilterPolicy \<noteq> SubscriptionRedrivePolicy"
    "SubscriptionRawMessageDelivery \<noteq> SubscriptionRedrivePolicy"
    by (simp_all add: SubscriptionDeliveryPolicy_def SubscriptionFilterPolicy_def
        SubscriptionRawMessageDelivery_def SubscriptionRedrivePolicy_def)
  have d: "dom (GetChangedSubAttributes p attrs) =
     {k. k = SubscriptionDeliveryPolicy \<and>
           StringValue (DeliveryPolicy p) \<noteq> mapIndex attrs SubscriptionDeliveryPolicy}
     \<union> {k. k = SubscriptionFilterPolicy \<and>
           StringValue (FilterPolicy p) \<noteq> mapIndex attrs SubscriptionFilterPolicy}
     \<union> {k. k = SubscriptionRawMessageDelivery \<and>
           StringValue (RawMessageDelivery p) \<noteq> mapIndex attrs SubscriptionRawMessageDelivery}
     \<union> {k. k = SubscriptionRedrivePolicy \<and>
           StringValue (RedrivePolicy p) \<noteq> mapIndex attrs SubscriptionRedrivePolicy}"
    unfolding dom_def by (auto simp: GetChangedSubAttributes_apply split: if_splits)
  have v1: "GetChangedSubAttributes p attrs SubscriptionDeliveryPolicy = Some v1
         \<longrightarrow> v1 = StringValue (DeliveryPolicy p)"
    using k k [symmetric] by (simp add: GetChangedSubAttributes_apply)
  have v2: "GetChangedSubAttributes p attrs SubscriptionFilterPolicy = Some v2
         \<longrightarrow> v2 = StringValue (FilterPolicy p)"
    using k k [symmetric] by (simp add: GetChangedSubAttributes_apply)
  have v3: "GetChangedSubAttributes p attrs SubscriptionRawMessageDelivery = Some v3
         \<longrightarrow> v3 = StringValue (RawMessageDelivery p)"
    using k k [symmetric] by (simp add: GetChangedSubAttributes_apply)
  have v4: "GetChangedSubAttributes p attrs SubscriptionRedrivePolicy = Some v4
         \<longrightarrow> v4 = StringValue (RedrivePolicy p)"
    using k k [symmetric] by (simp add: GetChangedSubAttributes_apply)
  have s: "dom (GetChangedSubAttributes p attrs) \<subseteq>
       {SubscriptionDeliveryPolicy, SubscriptionFilterPolicy,
        SubscriptionRawMessageDelivery, SubscriptionRedrivePolicy}"
    unfolding d by auto
  from d v1 v2 v3 v4 s show ?thesis by blast
qed

text \<open>
  C3 on a subscription whose spec sets only a delivery policy, observed with raw message
  delivery switched on: the delivery policy is sent as set, and raw message delivery is
  sent as the empty string, the desired value of a nil field.
\<close>

theorem changed_attributes_exact_witness:
  "dom (GetChangedSubAttributes
       \<lparr>TopicARN = ''arn:topic'', Protocol = ''sqs'', Endpoint = ''arn:queue'',
        DeliveryPolicy = Some ''{}'', FilterPolicy = None, RawMessageDelivery = None,
        RedrivePolicy = None\<rparr>
       [''RawMessageDelivery'' \<mapsto> ''true'']) = {''DeliveryPolicy'', ''RawMessageDelivery''}
   \<and> GetChangedSubAttributes
       \<lparr>TopicARN = ''arn:topic'', Protocol = ''sqs'', Endpoint = ''arn:queue'',
        DeliveryPolicy = Some ''{}'', FilterPolicy = None, RawMessageDelivery = None,
        RedrivePolicy = None\<rparr>
       [''RawMessageDelivery'' \<mapsto> ''true''] ''DeliveryPolicy'' = Some ''{}''
   \<and> GetChangedSubAttributes
       \<lparr>TopicARN = ''arn:topic'', Protocol = ''sqs'', Endpoint = ''arn:queue'',
        DeliveryPolicy = Some ''{}'', FilterPolicy = None, RawMessageDelivery = None,
        RedrivePolicy = None\<rparr>
       [''RawMessageDelivery'' \<mapsto> ''true''] ''RawMessageDelivery'' = Some []"
proof -
  let ?p = "\<lparr>TopicARN = ''arn:topic'', Protocol = ''sqs'', Endpoint = ''arn:queue'',
        DeliveryPolicy = Some ''{}'', FilterPolicy = None, RawMessageDelivery = None,
        RedrivePolicy = None\<rparr>"
  let ?a = "[''RawMessageDelivery'' \<mapsto> ''true'']"
  let ?r = "GetChangedSubAttributes ?p ?a"
  note c = changed_attributes_exact [of ?p ?a]
  have d: "dom ?r = {''DeliveryPolicy'', ''RawMessageDelivery''}"
    unfolding c [THEN conjunct1]
    by (auto simp: StringValue_def mapIndex_def SubscriptionDeliveryPolicy_def
        SubscriptionFilterPolicy_def SubscriptionRawMessageDelivery_def
        SubscriptionRedrivePolicy_def)
  from d obtain w1 where w1: "?r SubscriptionDeliveryPolicy = Some w1"
    unfolding SubscriptionDeliveryPolicy_def by blast
  from d obtain w3 where w3: "?r SubscriptionRawMessageDelivery = Some w3"
    unfolding SubscriptionRawMessageDelivery_def by blast
  have "w1 = ''{}''"
    using c [of w1] w1 by (simp add: StringValue_def)
  moreover have "w3 = []"
    using c [of _ _ w3] w3 by (simp add: StringValue_def)
  ultimately show ?thesis
    using d w1 w3
    by (simp add: SubscriptionDeliveryPolicy_def SubscriptionRawMessageDelivery_def)
qed

text \<open>
  Claim C6. \<^verbatim>\<open>LateInitializeSubscription\<close> only populates fields the user left unset:
  each of DeliveryPolicy, FilterPolicy, RawMessageDelivery and RedrivePolicy that was
  non-nil before the call holds the same value after it, and every other field of the
  parameters (Endpoint, Protocol, TopicARN and the rest, \<open>more\<close>) is unchanged. It holds
  whatever \<^verbatim>\<open>awsclients.String\<close> returns.
\<close>

theorem late_initialize_keeps_set_fields:
  "(DeliveryPolicy p \<noteq> None \<longrightarrow>
      DeliveryPolicy (LateInitializeSubscription String p subAttributes) = DeliveryPolicy p)
   \<and> (FilterPolicy p \<noteq> None \<longrightarrow>
      FilterPolicy (LateInitializeSubscription String p subAttributes) = FilterPolicy p)
   \<and> (RawMessageDelivery p \<noteq> None \<longrightarrow>
      RawMessageDelivery (LateInitializeSubscription String p subAttributes) = RawMessageDelivery p)
   \<and> (RedrivePolicy p \<noteq> None \<longrightarrow>
      RedrivePolicy (LateInitializeSubscription String p subAttributes) = RedrivePolicy p)
   \<and> Endpoint (LateInitializeSubscription String p subAttributes) = Endpoint p
   \<and> Protocol (LateInitializeSubscription String p subAttributes) = Protocol p
   \<and> TopicARN (LateInitializeSubscription String p subAttributes) = TopicARN p
   \<and> SNSSubscriptionParameters.more (LateInitializeSubscription String p subAttributes)
       = SNSSubscriptionParameters.more p"
  by (auto simp: LateInitializeSubscription_def LateInitializeStringPtr_def Let_def)

text \<open>
  C6 on a subscription whose spec sets the filter policy only, observed with a different
  filter policy and a delivery policy: the filter policy stays, the delivery policy is
  taken from the observation. \<^verbatim>\<open>awsclients.String\<close> is here the function that gives nil on
  the empty string and a pointer to the string otherwise.
\<close>

theorem late_initialize_keeps_set_fields_witness:
  "FilterPolicy \<lparr>TopicARN = ''arn:topic'', Protocol = ''sqs'', Endpoint = ''arn:queue'',
        DeliveryPolicy = None, FilterPolicy = Some ''{a:[1]}'', RawMessageDelivery = None,
        RedrivePolicy = None\<rparr> \<noteq> None
   \<and> LateInitializeSubscription (\<lambda>s. if s = [] then None else Some s)
       \<lparr>TopicARN = ''arn:topic'', Protocol = ''sqs'', Endpoint = ''arn:queue'',
        DeliveryPolicy = None, FilterPolicy = Some ''{a:[1]}'', RawMessageDelivery = None,
        RedrivePolicy = None\<rparr>
       [''FilterPolicy'' \<mapsto> ''{}'', ''DeliveryPolicy'' \<mapsto> ''{x:2}'']
     = \<lparr>TopicARN = ''arn:topic'', Protocol = ''sqs'', Endpoint = ''arn:queue'',
        DeliveryPolicy = Some ''{x:2}'', FilterPolicy = Some ''{a:[1]}'',
        RawMessageDelivery = None, RedrivePolicy = None\<rparr>"
proof -
  let ?p = "\<lparr>TopicARN = ''arn:topic'', Protocol = ''sqs'', Endpoint = ''arn:queue'',
        DeliveryPolicy = None, FilterPolicy = Some ''{a:[1]}'', RawMessageDelivery = None,
        RedrivePolicy = None\<rparr>"
  let ?a = "[''FilterPolicy'' \<mapsto> ''{}'', ''DeliveryPolicy'' \<mapsto> ''{x:2}'']"
  let ?S = "\<lambda>s::string. if s = [] then None else Some s"
  let ?out = "LateInitializeSubscription ?S ?p ?a"
  note c = late_initialize_keeps_set_fields [of ?p ?S ?a]
  have nonnil: "FilterPolicy ?p \<noteq> None" by simp
  with c have f: "FilterPolicy ?out = Some ''{a:[1]}''" by simp
  from c have frame: "Endpoint ?out = ''arn:queue''" "Protocol ?out = ''sqs''"
    "TopicARN ?out = ''arn:topic''" "SNSSubscriptionParameters.more ?out = ()"
    by simp_all
  have d: "DeliveryPolicy ?out = Some ''{x:2}''"
    by (simp add: LateInitializeSubscription_def LateInitializeStringPtr_def Let_def
        mapIndex_def SubscriptionDeliveryPolicy_def)
  have r: "RawMessageDelivery ?out = None" "RedrivePolicy ?out = None"
    by (simp_all add: LateInitializeSubscription_def LateInitializeStringPtr_def Let_def
        mapIndex_def SubscriptionRawMessageDelivery_def SubscriptionRedrivePolicy_def)
  have "?out = \<lparr>TopicARN = ''arn:topic'', Protocol = ''sqs'', Endpoint = ''arn:queue'',
        DeliveryPolicy = Some ''{x:2}'', FilterPolicy = Some ''{a:[1]}'',
        RawMessageDelivery = None, RedrivePolicy = None\<rparr>"
    using f frame d r by (intro SNSSubscriptionParameters.equality) simp_all
  with nonnil show ?thesis by simp
qed

text \<open>
  Claim C9. For every attribute map, \<^verbatim>\<open>GenerateSubscriptionObservation\<close> returns an
  observation whose Status and Owner pointers are non-nil: Owner points at the (possibly
  empty) Owner attribute; when the PendingConfirmation attribute is missing or does not
  parse as a boolean, Status points at the zero value of the confirmation status;
  ConfirmationWasAuthenticated is set exactly when that attribute parses as a boolean,
  to the parsed value, and is nil otherwise.
\<close>

theorem observation_status_owner_never_nil:
  "SNSSubscriptionObservation.Status (GenerateSubscriptionObservation attr) \<noteq> None
   \<and> Owner (GenerateSubscriptionObservation attr) \<noteq> None
   \<and> Owner (GenerateSubscriptionObservation attr) = Some (mapIndex attr SubscriptionOwner)
   \<and> (attr SubscriptionPendingConfirmation = None \<longrightarrow>
        SNSSubscriptionObservation.Status (GenerateSubscriptionObservation attr) = Some ConfirmationStatusZero)
   \<and> (ParseBool (mapIndex attr SubscriptionPendingConfirmation) = None \<longrightarrow>
        SNSSubscriptionObservation.Status (GenerateSubscriptionObservation attr) = Some ConfirmationStatusZero)
   \<and> ConfirmationWasAuthenticated (GenerateSubscriptionObservation attr)
        = ParseBool (mapIndex attr SubscriptionConfirmationWasAuthenticated)"
proof -
  have empty: "ParseBool [] = None"
    by (simp add: ParseBool_def)
  have missing: "attr SubscriptionPendingConfirmation = None \<Longrightarrow>
      ParseBool (mapIndex attr SubscriptionPendingConfirmation) = None"
    by (simp add: mapIndex_def empty)
  have unparsed: "ParseBool (mapIndex attr SubscriptionPendingConfirmation) = None \<Longrightarrow>
      SNSSubscriptionObservation.Status (GenerateSubscriptionObservation attr) = Some ConfirmationStatusZero"
    by (simp add: GenerateSubscriptionObservation_def)
  have owner: "Owner (GenerateSubscriptionObservation attr) = Some (mapIndex attr SubscriptionOwner)"
    by (simp add: GenerateSubscriptionObservation_def aws_String_def)
  have status: "SNSSubscriptionObservation.Status (GenerateSubscriptionObservation attr) \<noteq> None"
    by (simp add: GenerateSubscriptionObservation_def)
  have auth: "ConfirmationWasAuthenticated (GenerateSubscriptionObservation attr)
        = ParseBool (mapIndex attr SubscriptionConfirmationWasAuthenticated)"
    by (simp add: GenerateSubscriptionObservation_def aws_Bool_def split: option.splits)
  from missing unparsed owner status auth show ?thesis
    by simp
qed

text \<open>
  C9 on the attributes of a subscription that reports neither PendingConfirmation nor
  Owner, and an unparseable ConfirmationWasAuthenticated.
\<close>

theorem observation_status_owner_never_nil_witness:
  "[''ConfirmationWasAuthenticated'' \<mapsto> ''yes''] SubscriptionPendingConfirmation = None
   \<and> GenerateSubscriptionObservation [''ConfirmationWasAuthenticated'' \<mapsto> ''yes'']
     = \<lparr>Owner = Some [], SNSSubscriptionObservation.Status = Some ConfirmationStatusZero,
        ConfirmationWasAuthenticated = None\<rparr>"
proof -
  let ?a = "[''ConfirmationWasAuthenticated'' \<mapsto> ''yes'']"
  note c = observation_status_owner_never_nil [of ?a]
  have m: "?a SubscriptionPendingConfirmation = None"
    by (simp add: SubscriptionPendingConfirmation_def)
  with c have s: "SNSSubscriptionObservation.Status (GenerateSubscriptionObservation ?a) = Some ConfirmationStatusZero"
    by blast
  from c have o: "Owner (GenerateSubscriptionObservation ?a) = Some []"
    by (simp add: mapIndex_def SubscriptionOwner_def)
  from c have w: "ConfirmationWasAuthenticated (GenerateSubscriptionObservation ?a) = None"
    by (simp add: mapIndex_def SubscriptionConfirmationWasAuthenticated_def ParseBool_def)
  have "GenerateSubscriptionObservation ?a
     = \<lparr>Owner = Some [], SNSSubscriptionObservation.Status = Some ConfirmationStatusZero,
        ConfirmationWasAuthenticated = None\<rparr>"
    using s o w by (intro SNSSubscriptionObservation.equality) simp_all
  with m show ?thesis by simp
qed

section \<open>Properties of the not-found recognizers\<close>

text \<open>
  Claim C2. \<^verbatim>\<open>IsSubscriptionNotFound(err)\<close> is true if and only if \<^verbatim>\<open>err\<close> is an AWS SDK
  error whose code is the SNS constant \<^verbatim>\<open>ErrCodeNotFoundException\<close>, and
  \<^verbatim>\<open>IsNotFound(err)\<close> is true if and only if \<^verbatim>\<open>err\<close> is an AWS SDK error whose code is
  \<^verbatim>\<open>"NotFoundException"\<close>. Every other error gives false: the nil error, a plain error, a
  wrapped error, an AWS SDK error with an empty code.
\<close>

theorem not_found_exactly_by_code:
  "(IsSubscriptionNotFound err \<longleftrightarrow>
      (\<exists>message. err = Some (awserr_New ErrCodeNotFoundException message)))
   \<and> (IsNotFound err \<longleftrightarrow>
      (\<exists>message. err = Some (awserr_New ''NotFoundException'' message)))
   \<and> \<not> IsSubscriptionNotFound None
   \<and> \<not> IsNotFound None
   \<and> \<not> IsSubscriptionNotFound (Some (errors_New text))
   \<and> \<not> IsNotFound (Some (errors_New text))
   \<and> \<not> IsSubscriptionNotFound (Some (errors_Wrap cause text))
   \<and> \<not> IsNotFound (Some (errors_Wrap cause text))
   \<and> \<not> IsSubscriptionNotFound (Some (awserr_New [] text))
   \<and> \<not> IsNotFound (Some (awserr_New [] text))"
proof -
  have sns: "IsSubscriptionNotFound e \<longleftrightarrow>
      (\<exists>message. e = Some (awserr_New ErrCodeNotFoundException message))" for e
    by (auto simp: IsSubscriptionNotFound_def assert_awserr_def
        split: option.splits error.splits)
  have api: "IsNotFound e \<longleftrightarrow>
      (\<exists>message. e = Some (awserr_New ''NotFoundException'' message))" for e
    by (auto simp: IsNotFound_def assert_awserr_def split: option.splits error.splits)
  have code: "ErrCodeNotFoundException \<noteq> []"
    by (simp add: ErrCodeNotFoundException_def)
  show ?thesis
    unfolding sns api using code by simp
qed

text \<open>
  C2 on the errors the two services answer with: each recognizer accepts its own
  service's code and rejects the other's, and an AWS error that was wrapped is rejected.
\<close>

theorem not_found_exactly_by_code_witness:
  "IsSubscriptionNotFound (Some (awserr_New ''NotFound'' ''Subscription does not exist''))
   \<and> \<not> IsNotFound (Some (awserr_New ''NotFound'' ''Subscription does not exist''))
   \<and> IsNotFound (Some (awserr_New ''NotFoundException'' ''Invalid mapping identifier''))
   \<and> \<not> IsSubscriptionNotFound
         (Some (awserr_New ''NotFoundException'' ''Invalid mapping identifier''))
   \<and> \<not> IsNotFound
         (Some (errors_Wrap (awserr_New ''NotFoundException'' ''Invalid mapping identifier'')
            ''cannot get''))"
  using not_found_exactly_by_code
      [of "Some (awserr_New ''NotFound'' ''Subscription does not exist'')"
          "''x''" "awserr_New ''NotFoundException'' ''Invalid mapping identifier''"]
    not_found_exactly_by_code
      [of "Some (awserr_New ''NotFoundException'' ''Invalid mapping identifier'')" "''cannot get''"
          "awserr_New ''NotFoundException'' ''Invalid mapping identifier''"]
  by (simp add: ErrCodeNotFoundException_def)

section \<open>Properties of the Authorizer controller's hooks\<close>

text \<open>
  Claim C7. The hook \<^verbatim>\<open>postObserve\<close> of the Authorizer controller: when the incoming
  error is non-nil it returns the empty observation with that error and sets no condition
  (the resource is as it was); when the error is nil it sets the Available condition on
  the resource's status, changes nothing else of the resource, and returns \<^verbatim>\<open>obs\<close>
  unchanged with a nil error.
\<close>

theorem postObserve_error_or_available:
  "postObserve SetConditions cr resp obs (Some e) = (cr, ExternalObservation_zero, Some e)
   \<and> postObserve SetConditions cr resp obs None
       = (cr\<lparr>Conditions := SetConditions [Available] (Conditions cr)\<rparr>, obs, None)"
  by (simp add: postObserve_def)

text \<open>
  C7 on an Authorizer that is being created and observed as existing but not up to date,
  with a \<^verbatim>\<open>SetConditions\<close> that replaces the conditions.
\<close>

theorem postObserve_error_or_available_witness:
  "postObserve (\<lambda>new old. new)
       \<lparr>Annotations = [''crossplane.io/external-name'' \<mapsto> ''jwt''], ForProvider = ''api-1'',
        AtProvider = ''auth-1'', Conditions = [Creating]\<rparr>
       \<lparr>GetAuthorizersOutput.Items = [], NextToken = None\<rparr>
       \<lparr>ResourceExists = True, ResourceUpToDate = False\<rparr>
       (Some (errors_New ''boom''))
     = (\<lparr>Annotations = [''crossplane.io/external-name'' \<mapsto> ''jwt''], ForProvider = ''api-1'',
         AtProvider = ''auth-1'', Conditions = [Creating]\<rparr>,
        \<lparr>ResourceExists = False, ResourceUpToDate = False\<rparr>,
        Some (errors_New ''boom''))
   \<and> postObserve (\<lambda>new old. new)
       \<lparr>Annotations = [''crossplane.io/external-name'' \<mapsto> ''jwt''], ForProvider = ''api-1'',
        AtProvider = ''auth-1'', Conditions = [Creating]\<rparr>
       \<lparr>GetAuthorizersOutput.Items = [], NextToken = None\<rparr>
       \<lparr>ResourceExists = True, ResourceUpToDate = False\<rparr>
       None
     = (\<lparr>Annotations = [''crossplane.io/external-name'' \<mapsto> ''jwt''], ForProvider = ''api-1'',
         AtProvider = ''auth-1'', Conditions = [Available]\<rparr>,
        \<lparr>ResourceExists = True, ResourceUpToDate = False\<rparr>,
        None)"
  using postObserve_error_or_available
      [of "\<lambda>new old. new"
          "\<lparr>Annotations = [''crossplane.io/external-name'' \<mapsto> ''jwt''], ForProvider = ''api-1'',
            AtProvider = ''auth-1'', Conditions = [Creating]\<rparr>"
          "\<lparr>GetAuthorizersOutput.Items = [], NextToken = None\<rparr>"
          "\<lparr>ResourceExists = True, ResourceUpToDate = False\<rparr>"
          "errors_New ''boom''"]
  by (simp add: ExternalObservation_zero_def)

lemma filterList_loop_filter:
  "filterList_loop GetExternalName cr (map Some items) res
     = Inr (res @ map Some (filter (\<lambda>a. GetExternalName cr = StringValue (Name a)) items))"
  by (induction items arbitrary: res) simp_all

text \<open>A nil item anywhere in the list makes the loop panic when it reaches it.\<close>

lemma filterList_loop_nil_item:
  "None \<in> set items \<Longrightarrow> filterList_loop GetExternalName cr items res = Inl NilPointerDereference"
proof (induction items arbitrary: res)
  case Nil
  then show ?case by simp
next
  case (Cons a items)
  then show ?case by (cases a) auto
qed

text \<open>
  Claim C8. For every Authorizer \<open>cr\<close> and every output \<open>list\<close> (of items, that is of
  non-nil pointers), \<^verbatim>\<open>filterList\<close> returns an output that holds exactly the items of
  \<^verbatim>\<open>list.Items\<close> whose Name, nil read as the empty string, equals the external name of
  \<open>cr\<close>, in their original relative order; the input list is not modified.
\<close>

theorem filterList_exact:
  assumes "GetAuthorizersOutput.Items list = map Some items"
  shows "filterList GetExternalName cr list =
     Inr (list,
          \<lparr>GetAuthorizersOutput.Items =
             map Some (filter (\<lambda>a. GetExternalName cr = StringValue (Name a)) items),
           NextToken = None\<rparr>)"
  by (simp add: filterList_def assms filterList_loop_filter)

text \<open>
  C8 on an Authorizer named jwt and a page of four authorizers, one of them without a
  name; the external name is read from the annotation crossplane-runtime keeps it in.
\<close>

theorem filterList_exact_witness:
  "filterList (\<lambda>cr. mapIndex (Annotations cr) ''crossplane.io/external-name'')
       \<lparr>Annotations = [''crossplane.io/external-name'' \<mapsto> ''jwt''], ForProvider = ''api-1'',
        AtProvider = ''auth-1'', Conditions = []\<rparr>
       \<lparr>GetAuthorizersOutput.Items =
          [Some \<lparr>AuthorizerId = Some ''a1'', Name = Some ''jwt''\<rparr>,
           Some \<lparr>AuthorizerId = Some ''a2'', Name = None\<rparr>,
           Some \<lparr>AuthorizerId = Some ''a3'', Name = Some ''lambda''\<rparr>,
           Some \<lparr>AuthorizerId = Some ''a4'', Name = Some ''jwt''\<rparr>],
        NextToken = Some ''page2''\<rparr>
     = Inr (\<lparr>GetAuthorizersOutput.Items =
               [Some \<lparr>AuthorizerId = Some ''a1'', Name = Some ''jwt''\<rparr>,
                Some \<lparr>AuthorizerId = Some ''a2'', Name = None\<rparr>,
                Some \<lparr>AuthorizerId = Some ''a3'', Name = Some ''lambda''\<rparr>,
                Some \<lparr>AuthorizerId = Some ''a4'', Name = Some ''jwt''\<rparr>],
             NextToken = Some ''page2''\<rparr>,
            \<lparr>GetAuthorizersOutput.Items =
               [Some \<lparr>AuthorizerId = Some ''a1'', Name = Some ''jwt''\<rparr>,
                Some \<lparr>AuthorizerId = Some ''a4'', Name = Some ''jwt''\<rparr>],
             NextToken = None\<rparr>)"
proof -
  let ?items = "[\<lparr>AuthorizerId = Some ''a1'', Name = Some ''jwt''\<rparr>,
                 \<lparr>AuthorizerId = Some ''a2'', Name = None\<rparr>,
                 \<lparr>AuthorizerId = Some ''a3'', Name = Some ''lambda''\<rparr>,
                 \<lparr>AuthorizerId = Some ''a4'', Name = Some ''jwt''\<rparr>]"
  let ?list = "\<lparr>GetAuthorizersOutput.Items = map Some ?items, NextToken = Some ''page2''\<rparr>"
  have h: "GetAuthorizersOutput.Items ?list = map Some ?items"
    by simp
  show ?thesis
    using filterList_exact [OF h,
        of "\<lambda>cr. mapIndex (Annotations cr) ''crossplane.io/external-name''"
           "\<lparr>Annotations = [''crossplane.io/external-name'' \<mapsto> ''jwt''],
             ForProvider = ''api-1'', AtProvider = ''auth-1'', Conditions = []\<rparr>"]
    by (simp add: mapIndex_def StringValue_def)
qed

section \<open>Properties of the APIMapping conversions\<close>

lemma GenerateAPIMapping_first:
  "GenerateAPIMapping_loop (Some elem # rest) APIMapping_zero =
     Inr (\<lparr>Annotations = Map.empty,
           ForProvider = \<lparr>APIMappingKey = ApiMappingKey elem\<rparr>,
           AtProvider = \<lparr>APIID = ApiId elem, APIMappingID = ApiMappingId elem,
                         APIMappingObservation.Stage = ApiMapping.Stage elem\<rparr>,
           Conditions = []\<rparr>, True)"
  by (simp add: APIMapping_zero_def Let_def)

text \<open>
  Claim C10. \<^verbatim>\<open>GenerateAPIMapping\<close> depends only on the first element of \<^verbatim>\<open>resp.Items\<close>:
  its result on \<open>resp\<close> is its result on the response that holds the first item only.
  APIID, APIMappingID and Stage of \<^verbatim>\<open>Status.AtProvider\<close> and APIMappingKey of
  \<^verbatim>\<open>Spec.ForProvider\<close> are copied from the first item where its field is non-nil and stay
  nil where it is nil; when \<^verbatim>\<open>Items\<close> is empty the result is the all-empty APIMapping.
\<close>

theorem GenerateAPIMapping_first_item_only:
  "GenerateAPIMapping resp
     = GenerateAPIMapping
         (resp\<lparr>GetApiMappingsOutput.Items := take 1 (GetApiMappingsOutput.Items resp)\<rparr>)
   \<and> (GetApiMappingsOutput.Items resp = [] \<longrightarrow> GenerateAPIMapping resp = Inr APIMapping_zero)
   \<and> (GetApiMappingsOutput.Items resp = Some elem # rest \<longrightarrow>
        GenerateAPIMapping resp =
          Inr \<lparr>Annotations = Map.empty,
               ForProvider = \<lparr>APIMappingKey = ApiMappingKey elem\<rparr>,
               AtProvider = \<lparr>APIID = ApiId elem, APIMappingID = ApiMappingId elem,
                             APIMappingObservation.Stage = ApiMapping.Stage elem\<rparr>,
               Conditions = []\<rparr>)"
proof -
  have first: "GenerateAPIMapping_loop (take (Suc 0) xs) cr = GenerateAPIMapping_loop xs cr"
    for xs cr
  proof (cases xs)
    case Nil
    then show ?thesis by simp
  next
    case (Cons x rest')
    then show ?thesis by (cases x) simp_all
  qed
  have a: "GenerateAPIMapping resp
     = GenerateAPIMapping
         (resp\<lparr>GetApiMappingsOutput.Items := take 1 (GetApiMappingsOutput.Items resp)\<rparr>)"
    by (simp add: GenerateAPIMapping_def first)
  have b: "GetApiMappingsOutput.Items resp = [] \<Longrightarrow> GenerateAPIMapping resp = Inr APIMapping_zero"
    by (simp add: GenerateAPIMapping_def)
  have c: "GetApiMappingsOutput.Items resp = Some elem # rest \<Longrightarrow>
        GenerateAPIMapping resp =
          Inr \<lparr>Annotations = Map.empty,
               ForProvider = \<lparr>APIMappingKey = ApiMappingKey elem\<rparr>,
               AtProvider = \<lparr>APIID = ApiId elem, APIMappingID = ApiMappingId elem,
                             APIMappingObservation.Stage = ApiMapping.Stage elem\<rparr>,
               Conditions = []\<rparr>"
    by (simp add: GenerateAPIMapping_def GenerateAPIMapping_first
        del: GenerateAPIMapping_loop.simps)
  from a b c show ?thesis by blast
qed

text \<open>
  C10 on a response of two mappings: the first has no key, and the key of the second is
  not taken in its place.
\<close>

theorem GenerateAPIMapping_first_item_only_witness:
  "GenerateAPIMapping
       \<lparr>GetApiMappingsOutput.Items =
          [Some \<lparr>ApiId = Some ''api-1'', ApiMappingId = Some ''m1'', ApiMappingKey = None,
                 ApiMapping.Stage = Some ''prod''\<rparr>,
           Some \<lparr>ApiId = Some ''api-2'', ApiMappingId = Some ''m2'', ApiMappingKey = Some ''v2'',
                 ApiMapping.Stage = None\<rparr>],
        NextToken = None\<rparr>
     = Inr \<lparr>Annotations = Map.empty,
            ForProvider = \<lparr>APIMappingKey = None\<rparr>,
            AtProvider = \<lparr>APIID = Some ''api-1'', APIMappingID = Some ''m1'',
                          APIMappingObservation.Stage = Some ''prod''\<rparr>,
            Conditions = []\<rparr>
   \<and> GenerateAPIMapping \<lparr>GetApiMappingsOutput.Items = [], NextToken = None\<rparr>
     = Inr APIMapping_zero"
proof -
  let ?first = "\<lparr>ApiId = Some ''api-1'', ApiMappingId = Some ''m1'', ApiMappingKey = None,
                 ApiMapping.Stage = Some ''prod''\<rparr>"
  let ?rest = "[Some \<lparr>ApiId = Some ''api-2'', ApiMappingId = Some ''m2'',
                  ApiMappingKey = Some ''v2'', ApiMapping.Stage = None\<rparr>]"
  let ?resp = "\<lparr>GetApiMappingsOutput.Items = Some ?first # ?rest, NextToken = None\<rparr>"
  let ?none = "\<lparr>GetApiMappingsOutput.Items = [], NextToken = None\<rparr>"
  have two: "GetApiMappingsOutput.Items ?resp = Some ?first # ?rest"
    by simp
  have a: "GenerateAPIMapping ?resp =
      Inr \<lparr>Annotations = Map.empty,
            ForProvider = \<lparr>APIMappingKey = None\<rparr>,
            AtProvider = \<lparr>APIID = Some ''api-1'', APIMappingID = Some ''m1'',
                          APIMappingObservation.Stage = Some ''prod''\<rparr>,
            Conditions = []\<rparr>"
    using GenerateAPIMapping_first_item_only [of ?resp ?first ?rest, THEN conjunct2, THEN conjunct2]
      two by simp
  have b: "GenerateAPIMapping ?none = Inr APIMapping_zero"
    using GenerateAPIMapping_first_item_only [of ?none, THEN conjunct2, THEN conjunct1]
    by simp
  from a b show ?thesis by simp
qed

section \<open>Properties of the NodeGroup controller\<close>

lemma IsErrorNotFound_errBoom: "\<not> IsErrorNotFound errBoom"
  by (simp add: IsErrorNotFound_def errBoom_def ErrCodeResourceNotFoundException_def
      sublist_code)

lemma IsErrorNotFound_plain: "IsErrorNotFound (errors_New ErrCodeResourceNotFoundException)"
  by (simp add: IsErrorNotFound_def)

lemma IsErrorNotFound_awserr:
  "IsErrorNotFound (awserr_New ErrCodeResourceNotFoundException message)"
  by (simp add: IsErrorNotFound_def)

text \<open>
  The remaining rows of the tables of \<^verbatim>\<open>TestDelete\<close> and \<^verbatim>\<open>TestCreate\<close>, which the model
  of the two operations reproduces: a successful call, and a node group whose observed
  status says that the operation is already under way, for which the outcome of a call
  does not matter (the rows have no client).
\<close>

lemma TestDelete_Successful:
  "Delete SetConditions errDeleteFailed (Inr rsp) nodeGroup
     = (nodeGroup\<lparr>Conditions := SetConditions [Deleting] []\<rparr>, None)"
  by (simp add: Delete_def Let_def nodeGroup_def)

lemma TestDelete_AlreadyDeleting:
  "Delete SetConditions errDeleteFailed outcome
       (nodeGroup\<lparr>AtProvider := \<lparr>NodeGroupObservation.Status = NodeGroupStatusDeleting\<rparr>\<rparr>)
     = (nodeGroup\<lparr>AtProvider := \<lparr>NodeGroupObservation.Status = NodeGroupStatusDeleting\<rparr>,
                   Conditions := SetConditions [Deleting] []\<rparr>, None)"
  by (simp add: Delete_def Let_def nodeGroup_def)

lemma TestCreate_Successful:
  "Create SetConditions errCreateFailed (Inr rsp) nodeGroup
     = (nodeGroup\<lparr>Conditions := SetConditions [Creating] []\<rparr>, None)"
  by (simp add: Create_def Let_def nodeGroup_def)

lemma TestCreate_SuccessfulNoNeedForCreate:
  "Create SetConditions errCreateFailed outcome
       (nodeGroup\<lparr>AtProvider := \<lparr>NodeGroupObservation.Status = NodeGroupStatusCreating\<rparr>\<rparr>)
     = (nodeGroup\<lparr>AtProvider := \<lparr>NodeGroupObservation.Status = NodeGroupStatusCreating\<rparr>,
                   Conditions := SetConditions [Creating] []\<rparr>, None)"
  by (simp add: Create_def Let_def nodeGroup_def)

text \<open>
  Claim C4. When DeleteNodegroup fails with the EKS error code ResourceNotFoundException,
  \<^verbatim>\<open>Delete\<close> returns a nil error while still setting the Deleting condition; when
  DescribeNodegroup fails with that code, \<^verbatim>\<open>Observe\<close> returns no error and an observation
  that reports that the resource does not exist, and leaves the custom resource
  unchanged. An AWS SDK error with that code and the plain error of the tests are both
  recognized.
\<close>

theorem not_found_is_already_absent:
  "(IsErrorNotFound err \<longrightarrow>
      Delete SetConditions errDeleteFailed (Inl err) cr
        = (cr\<lparr>Conditions := SetConditions [Deleting] (Conditions cr)\<rparr>, None))
   \<and> (IsErrorNotFound err \<longrightarrow>
      Observe observed (Inl err) cr = (cr, ExternalObservation_zero, None))
   \<and> \<not> ResourceExists ExternalObservation_zero
   \<and> IsErrorNotFound (awserr_New ErrCodeResourceNotFoundException message)
   \<and> IsErrorNotFound (errors_New ErrCodeResourceNotFoundException)"
  by (simp add: Delete_def Observe_def Let_def ExternalObservation_zero_def
      IsErrorNotFound_plain IsErrorNotFound_awserr)

text \<open>
  C4 on the cases AlreadyDeleted of \<^verbatim>\<open>TestDelete\<close> and NotFound of \<^verbatim>\<open>TestObserve\<close>, with a
  \<^verbatim>\<open>SetConditions\<close> that replaces the conditions.
\<close>

theorem not_found_is_already_absent_witness:
  "IsErrorNotFound (errors_New ErrCodeResourceNotFoundException)
   \<and> Delete (\<lambda>new old. new) ''cannot delete node group''
        (Inl (errors_New ErrCodeResourceNotFoundException) :: error + unit) nodeGroup
     = (nodeGroup\<lparr>Conditions := [Deleting]\<rparr>, None)
   \<and> Observe (\<lambda>rsp cr. (cr, \<lparr>ResourceExists = True, ResourceUpToDate = True\<rparr>, None))
        (Inl (errors_New ErrCodeResourceNotFoundException) :: error + unit) nodeGroup
     = (nodeGroup, \<lparr>ResourceExists = False, ResourceUpToDate = False\<rparr>, None)"
proof -
  let ?e = "errors_New ErrCodeResourceNotFoundException"
  note c = not_found_is_already_absent
    [of ?e "\<lambda>new old. new" "''cannot delete node group''" nodeGroup
        "\<lambda>rsp cr. (cr, \<lparr>ResourceExists = True, ResourceUpToDate = True\<rparr>, None)"]
  from c have nf: "IsErrorNotFound ?e"
    by blast
  from c nf have d: "Delete (\<lambda>new old. new) ''cannot delete node group''
        (Inl ?e :: error + unit) nodeGroup = (nodeGroup\<lparr>Conditions := [Deleting]\<rparr>, None)"
    by blast
  from c nf have "Observe (\<lambda>rsp cr. (cr, \<lparr>ResourceExists = True, ResourceUpToDate = True\<rparr>, None))
        (Inl ?e :: error + unit) nodeGroup = (nodeGroup, ExternalObservation_zero, None)"
    by blast
  then have o: "Observe (\<lambda>rsp cr. (cr, \<lparr>ResourceExists = True, ResourceUpToDate = True\<rparr>, None))
        (Inl ?e :: error + unit) nodeGroup
      = (nodeGroup, \<lparr>ResourceExists = False, ResourceUpToDate = False\<rparr>, None)"
    by (simp add: ExternalObservation_zero_def)
  from nf d o show ?thesis by blast
qed

text \<open>
  Claim C5. When the first AWS call of an operation of the NodeGroup controller fails
  with an error that is not a recognized not-found code, the operation returns that
  error wrapped with the operation's named error string: \<^verbatim>\<open>errDescribeFailed\<close>, ``failed to
  describe node group'', for \<^verbatim>\<open>Observe\<close>, \<^verbatim>\<open>errDeleteFailed\<close> for \<^verbatim>\<open>Delete\<close>, \<^verbatim>\<open>errCreateFailed\<close>
  for \<^verbatim>\<open>Create\<close>. The custom resource's spec and observed status are as they were:
  \<^verbatim>\<open>Observe\<close> leaves the resource unchanged, \<^verbatim>\<open>Delete\<close> and \<^verbatim>\<open>Create\<close> change its conditions
  only, by setting Deleting and Creating. (\<^verbatim>\<open>Delete\<close> and \<^verbatim>\<open>Create\<close> call AWS unless the
  observed status is already Deleting and Creating.)
\<close>

theorem first_failing_call_is_wrapped:
  "(\<not> IsErrorNotFound err \<longrightarrow>
      Observe observed (Inl err :: error + 'rsp) cr
        = (cr, ExternalObservation_zero, Some (errors_Wrap err errDescribeFailed)))
   \<and> errDescribeFailed = ''failed to describe node group''
   \<and> (\<not> IsErrorNotFound err
        \<and> NodeGroupObservation.Status (AtProvider cr) \<noteq> NodeGroupStatusDeleting \<longrightarrow>
      Delete SetConditions errDeleteFailed (Inl err :: error + 'rsp) cr
        = (cr\<lparr>Conditions := SetConditions [Deleting] (Conditions cr)\<rparr>,
           Some (errors_Wrap err errDeleteFailed)))
   \<and> (\<not> IsErrorNotFound err
        \<and> NodeGroupObservation.Status (AtProvider cr) \<noteq> NodeGroupStatusCreating \<longrightarrow>
      Create SetConditions errCreateFailed (Inl err :: error + 'rsp) cr
        = (cr\<lparr>Conditions := SetConditions [Creating] (Conditions cr)\<rparr>,
           Some (errors_Wrap err errCreateFailed)))
   \<and> ForProvider (fst (Delete SetConditions errDeleteFailed (Inl err :: error + 'rsp) cr)) = ForProvider cr
   \<and> AtProvider (fst (Delete SetConditions errDeleteFailed (Inl err :: error + 'rsp) cr)) = AtProvider cr
   \<and> ForProvider (fst (Create SetConditions errCreateFailed (Inl err :: error + 'rsp) cr)) = ForProvider cr
   \<and> AtProvider (fst (Create SetConditions errCreateFailed (Inl err :: error + 'rsp) cr)) = AtProvider cr"
proof -
  have obs: "\<not> IsErrorNotFound err \<Longrightarrow>
      Observe observed (Inl err :: error + 'rsp) cr
        = (cr, ExternalObservation_zero, Some (errors_Wrap err errDescribeFailed))"
    by (simp add: Observe_def Wrap_def)
  have del: "\<not> IsErrorNotFound err \<Longrightarrow>
      NodeGroupObservation.Status (AtProvider cr) \<noteq> NodeGroupStatusDeleting \<Longrightarrow>
      Delete SetConditions errDeleteFailed (Inl err :: error + 'rsp) cr
        = (cr\<lparr>Conditions := SetConditions [Deleting] (Conditions cr)\<rparr>,
           Some (errors_Wrap err errDeleteFailed))"
    by (simp add: Delete_def Wrap_def Let_def)
  have cre: "NodeGroupObservation.Status (AtProvider cr) \<noteq> NodeGroupStatusCreating \<Longrightarrow>
      Create SetConditions errCreateFailed (Inl err :: error + 'rsp) cr
        = (cr\<lparr>Conditions := SetConditions [Creating] (Conditions cr)\<rparr>,
           Some (errors_Wrap err errCreateFailed))"
    by (simp add: Create_def Wrap_def Let_def)
  have frame_del:
    "ForProvider (fst (Delete SetConditions errDeleteFailed (Inl err :: error + 'rsp) cr)) = ForProvider cr"
    "AtProvider (fst (Delete SetConditions errDeleteFailed (Inl err :: error + 'rsp) cr)) = AtProvider cr"
    by (simp_all add: Delete_def Let_def)
  have frame_cre:
    "ForProvider (fst (Create SetConditions errCreateFailed (Inl err :: error + 'rsp) cr)) = ForProvider cr"
    "AtProvider (fst (Create SetConditions errCreateFailed (Inl err :: error + 'rsp) cr)) = AtProvider cr"
    by (simp_all add: Create_def Let_def)
  note describe_text = errDescribeFailed_def
  from obs describe_text del cre frame_del frame_cre show ?thesis
    by blast
qed

text \<open>
  C5 on the cases FailedDescribeRequest of \<^verbatim>\<open>TestObserve\<close>, Failed of \<^verbatim>\<open>TestDelete\<close> and
  FailedRequest of \<^verbatim>\<open>TestCreate\<close>, with a \<^verbatim>\<open>SetConditions\<close> that replaces the conditions.
\<close>

theorem first_failing_call_is_wrapped_witness:
  "\<not> IsErrorNotFound errBoom
   \<and> NodeGroupObservation.Status (AtProvider nodeGroup) \<noteq> NodeGroupStatusDeleting
   \<and> NodeGroupObservation.Status (AtProvider nodeGroup) \<noteq> NodeGroupStatusCreating
   \<and> Observe (\<lambda>rsp cr. (cr, \<lparr>ResourceExists = True, ResourceUpToDate = True\<rparr>, None))
        (Inl errBoom :: error + unit) nodeGroup
     = (nodeGroup, \<lparr>ResourceExists = False, ResourceUpToDate = False\<rparr>,
        Some (errors_Wrap errBoom ''failed to describe node group''))
   \<and> Delete (\<lambda>new old. new) ''cannot delete node group'' (Inl errBoom :: error + unit) nodeGroup
     = (nodeGroup\<lparr>Conditions := [Deleting]\<rparr>,
        Some (errors_Wrap errBoom ''cannot delete node group''))
   \<and> Create (\<lambda>new old. new) ''cannot create node group'' (Inl errBoom :: error + unit) nodeGroup
     = (nodeGroup\<lparr>Conditions := [Creating]\<rparr>,
        Some (errors_Wrap errBoom ''cannot create node group''))"
proof -
  let ?obs = "\<lambda>(rsp::unit) (cr::(NodeGroupParameters, NodeGroupObservation) Managed).
      (cr, \<lparr>ResourceExists = True, ResourceUpToDate = True\<rparr>, None :: error option)"
  note c = first_failing_call_is_wrapped
    [of errBoom ?obs nodeGroup "\<lambda>new old. new"
        "''cannot delete node group''" "''cannot create node group''"]
  have nf: "\<not> IsErrorNotFound errBoom"
    by (rule IsErrorNotFound_errBoom)
  have sd: "NodeGroupObservation.Status (AtProvider nodeGroup) \<noteq> NodeGroupStatusDeleting"
    and sc: "NodeGroupObservation.Status (AtProvider nodeGroup) \<noteq> NodeGroupStatusCreating"
    by (simp_all add: nodeGroup_def)
  from c nf have "Observe ?obs (Inl errBoom) nodeGroup
      = (nodeGroup, ExternalObservation_zero, Some (errors_Wrap errBoom errDescribeFailed))"
    by blast
  with c have o: "Observe ?obs (Inl errBoom) nodeGroup
      = (nodeGroup, \<lparr>ResourceExists = False, ResourceUpToDate = False\<rparr>,
         Some (errors_Wrap errBoom ''failed to describe node group''))"
    by (simp add: ExternalObservation_zero_def)
  from c nf sd have d: "Delete (\<lambda>new old. new) ''cannot delete node group''
        (Inl errBoom :: error + unit) nodeGroup
      = (nodeGroup\<lparr>Conditions := [Deleting]\<rparr>,
         Some (errors_Wrap errBoom ''cannot delete node group''))"
    by blast
  from c nf sc have r: "Create (\<lambda>new old. new) ''cannot create node group''
        (Inl errBoom :: error + unit) nodeGroup
      = (nodeGroup\<lparr>Conditions := [Creating]\<rparr>,
         Some (errors_Wrap errBoom ''cannot create node group''))"
    by blast
  from nf sd sc o d r show ?thesis by blast
qed

end
